theory Spec2Isabelle
  imports Complex_Main
begin

section \<open>JavaScript strings\<close>

text \<open>
  A JavaScript string is a sequence of UTF-16 code units. The peso sign
  (U+20B1) and the Unicode white space characters that \<^verbatim>\<open>\s\<close> and
  \<^verbatim>\<open>trim()\<close> recognise lie outside the 8-bit range of \<^typ>\<open>char\<close>, so a
  string is a list of code units given as natural numbers. \<open>js\<close> embeds
  an ASCII literal.
\<close>

type_synonym jstring = "nat list"

definition js :: "string \<Rightarrow> jstring" where
  "js s = map of_char s"

definition peso :: nat where
  "peso = 8369"

definition dot :: nat where
  "dot = 46"

definition space :: nat where
  "space = 32"

text \<open>
  The class \<^verbatim>\<open>\s\<close> of a regular expression and the characters removed by
  \<^verbatim>\<open>String.prototype.trim\<close> are the same set: WhiteSpace and LineTerminator
  of ECMA-262 (TAB, LF, VT, FF, CR, SP, NBSP, U+1680, U+2000..U+200A,
  U+2028, U+2029, U+202F, U+205F, U+3000, U+FEFF).
\<close>

definition isWhiteSpace :: "nat \<Rightarrow> bool" where
  "isWhiteSpace c \<longleftrightarrow>
     c = 9 \<or> c = 10 \<or> c = 11 \<or> c = 12 \<or> c = 13 \<or> c = 32 \<or> c = 160 \<or>
     c = 5760 \<or> (8192 \<le> c \<and> c \<le> 8202) \<or> c = 8232 \<or> c = 8233 \<or>
     c = 8239 \<or> c = 8287 \<or> c = 12288 \<or> c = 65279"

text \<open>\<^verbatim>\<open>\d\<close> is \<^verbatim>\<open>[0-9]\<close> and \<^verbatim>\<open>\w\<close> is \<^verbatim>\<open>[A-Za-z0-9_]\<close>.\<close>

definition isDigit :: "nat \<Rightarrow> bool" where
  "isDigit c \<longleftrightarrow> 48 \<le> c \<and> c \<le> 57"

definition isWordChar :: "nat \<Rightarrow> bool" where
  "isWordChar c \<longleftrightarrow>
     (48 \<le> c \<and> c \<le> 57) \<or> (65 \<le> c \<and> c \<le> 90) \<or> (97 \<le> c \<and> c \<le> 122) \<or> c = 95"

text \<open>\<^verbatim>\<open>s.replace(/c/g, ' ')\<close> for a single character \<open>c\<close>.\<close>

definition replaceChar :: "nat \<Rightarrow> jstring \<Rightarrow> jstring" where
  "replaceChar c s = map (\<lambda>x. if x = c then space else x) s"

text \<open>\<^verbatim>\<open>s.replace(/\s+/g, ' ')\<close>: every maximal run of white space becomes one space.\<close>

function collapseWs :: "jstring \<Rightarrow> jstring" where
  "collapseWs [] = []"
| "collapseWs (c # cs) =
     (if isWhiteSpace c then space # collapseWs (dropWhile isWhiteSpace cs)
      else c # collapseWs cs)"
  by pat_completeness auto
termination
  by (relation "measure length") (auto simp: le_imp_less_Suc length_dropWhile_le)

text \<open>\<^verbatim>\<open>s.trim()\<close>.\<close>

definition trim :: "jstring \<Rightarrow> jstring" where
  "trim s = rev (dropWhile isWhiteSpace (rev (dropWhile isWhiteSpace s)))"

section \<open>Line cleaner (App.jsx, cleanLineContent)\<close>

text \<open>
  The argument is a string or null/undefined (\<open>None\<close>). \<^verbatim>\<open>!line\<close> holds
  for null, undefined and the empty string.
\<close>

definition cleanLineContent :: "jstring option \<Rightarrow> jstring" where
  "cleanLineContent line =
     (case line of
        None \<Rightarrow> []
      | Some l \<Rightarrow>
          if l = [] then []
          else trim (collapseWs (replaceChar 44 (replaceChar 94 (replaceChar 124 l)))))"

section \<open>JavaScript numbers\<close>

text \<open>
  A Number is modelled as an exact rational, or NaN, or one of the two
  infinities. The binary rounding of IEEE-754 doubles, overflow to
  Infinity and the sign of zero are not represented: every finite result
  is the exact one, and zero is the positive zero (the accumulators of
  this program start at \<^verbatim>\<open>0\<close> and a sum of doubles is never \<^verbatim>\<open>-0\<close> unless
  every summand is).
\<close>

datatype jsnum = Fin rat | NaN | PInf | NInf

fun isNaN :: "jsnum \<Rightarrow> bool" where
  "isNaN NaN = True"
| "isNaN _ = False"

text \<open>ToBoolean on a Number: \<^verbatim>\<open>0\<close> and \<^verbatim>\<open>NaN\<close> are falsy.\<close>

fun truthy :: "jsnum \<Rightarrow> bool" where
  "truthy (Fin q) = (q \<noteq> 0)"
| "truthy NaN = False"
| "truthy _ = True"

fun jsneg :: "jsnum \<Rightarrow> jsnum" where
  "jsneg (Fin q) = Fin (- q)"
| "jsneg NaN = NaN"
| "jsneg PInf = NInf"
| "jsneg NInf = PInf"

fun jsadd :: "jsnum \<Rightarrow> jsnum \<Rightarrow> jsnum" where
  "jsadd NaN _ = NaN"
| "jsadd _ NaN = NaN"
| "jsadd (Fin a) (Fin b) = Fin (a + b)"
| "jsadd PInf NInf = NaN"
| "jsadd NInf PInf = NaN"
| "jsadd PInf _ = PInf"
| "jsadd NInf _ = NInf"
| "jsadd (Fin a) b = b"

definition jssub :: "jsnum \<Rightarrow> jsnum \<Rightarrow> jsnum" where
  "jssub a b = jsadd a (jsneg b)"

fun jsmul :: "jsnum \<Rightarrow> jsnum \<Rightarrow> jsnum" where
  "jsmul NaN _ = NaN"
| "jsmul _ NaN = NaN"
| "jsmul (Fin a) (Fin b) = Fin (a * b)"
| "jsmul (Fin a) PInf = (if a = 0 then NaN else if 0 < a then PInf else NInf)"
| "jsmul (Fin a) NInf = (if a = 0 then NaN else if 0 < a then NInf else PInf)"
| "jsmul PInf (Fin b) = (if b = 0 then NaN else if 0 < b then PInf else NInf)"
| "jsmul NInf (Fin b) = (if b = 0 then NaN else if 0 < b then NInf else PInf)"
| "jsmul PInf PInf = PInf"
| "jsmul PInf NInf = NInf"
| "jsmul NInf PInf = NInf"
| "jsmul NInf NInf = PInf"

text \<open>
  Division: a finite value divided by zero is NaN when it is zero itself
  and an infinity of its sign otherwise; nothing is raised.
\<close>

fun jsdiv :: "jsnum \<Rightarrow> jsnum \<Rightarrow> jsnum" where
  "jsdiv NaN _ = NaN"
| "jsdiv _ NaN = NaN"
| "jsdiv (Fin a) (Fin b) =
     (if b \<noteq> 0 then Fin (a / b)
      else if a = 0 then NaN else if 0 < a then PInf else NInf)"
| "jsdiv (Fin a) _ = Fin 0"
| "jsdiv PInf (Fin b) = (if 0 \<le> b then PInf else NInf)"
| "jsdiv NInf (Fin b) = (if 0 \<le> b then NInf else PInf)"
| "jsdiv _ _ = NaN"

text \<open>\<^verbatim>\<open>a < b\<close>: false as soon as one side is NaN.\<close>

fun jslt :: "jsnum \<Rightarrow> jsnum \<Rightarrow> bool" where
  "jslt NaN _ = False"
| "jslt _ NaN = False"
| "jslt (Fin a) (Fin b) = (a < b)"
| "jslt NInf NInf = False"
| "jslt NInf _ = True"
| "jslt PInf _ = False"
| "jslt (Fin a) PInf = True"
| "jslt (Fin a) NInf = False"



section \<open>parseFloat\<close>

text \<open>
  \<^verbatim>\<open>parseFloat\<close> skips leading white space and reads the longest prefix
  that is a StrDecimalLiteral: an optional sign, then \<^verbatim>\<open>Infinity\<close>, or
  digits with an optional fraction and an optional exponent, or a dot
  followed by digits and an optional exponent. Without such a prefix the
  result is NaN.
\<close>

definition digitsVal :: "jstring \<Rightarrow> int" where
  "digitsVal ds = foldl (\<lambda>a c. 10 * a + int (c - 48)) 0 ds"

definition pow10 :: "int \<Rightarrow> rat" where
  "pow10 e = (if 0 \<le> e then 10 ^ nat e else 1 / 10 ^ nat (- e))"

text \<open>The exponent part \<^verbatim>\<open>[eE][+-]?[0-9]+\<close> at the head of a string, 0 when absent.\<close>

definition exponentPart :: "jstring \<Rightarrow> int" where
  "exponentPart r =
     (case r of
        [] \<Rightarrow> 0
      | c # r1 \<Rightarrow>
          if c = 101 \<or> c = 69 then
            (case r1 of
               [] \<Rightarrow> 0
             | s # r2 \<Rightarrow>
                 if s = 43 then
                   (if takeWhile isDigit r2 = [] then 0 else digitsVal (takeWhile isDigit r2))
                 else if s = 45 then
                   (if takeWhile isDigit r2 = [] then 0 else - digitsVal (takeWhile isDigit r2))
                 else digitsVal (takeWhile isDigit r1))
          else 0)"

text \<open>The unsigned part of a StrDecimalLiteral.\<close>

definition parseUnsigned :: "jstring \<Rightarrow> jsnum" where
  "parseUnsigned t =
     (if take 8 t = js ''Infinity'' then PInf
      else
        let ip = takeWhile isDigit t;
            r1 = dropWhile isDigit t;
            fp = (case r1 of [] \<Rightarrow> [] | c # r \<Rightarrow> if c = dot then takeWhile isDigit r else []);
            r2 = (case r1 of [] \<Rightarrow> [] | c # r \<Rightarrow> if c = dot then dropWhile isDigit r else r1)
        in if ip = [] \<and> fp = [] then NaN
           else Fin (of_int (digitsVal (ip @ fp)) * pow10 (exponentPart r2 - int (length fp))))"

definition parseFloat :: "jstring \<Rightarrow> jsnum" where
  "parseFloat s =
     (case dropWhile isWhiteSpace s of
        [] \<Rightarrow> NaN
      | c # t \<Rightarrow>
          if c = 45 then jsneg (parseUnsigned t)
          else if c = 43 then parseUnsigned t
          else parseUnsigned (c # t))"

section \<open>Amount extractor (App.jsx, calculateTotalAmount)\<close>















subsection \<open>The token notion of the specification's wording\<close>





section \<open>Value-level amount test (DataTable.jsx, isAmount)\<close>

text \<open>
  \<^verbatim>\<open>s.replace(/[P,\s]/g, '')\<close>, where \<^verbatim>\<open>P\<close> stands for the peso sign of the
  source: the peso signs, commas and white space are removed.
\<close>

definition stripAmount :: "jstring \<Rightarrow> jstring" where
  "stripAmount s = filter (\<lambda>c. \<not> (c = peso \<or> c = 44 \<or> isWhiteSpace c)) s"

text \<open>
  The regular expression \<^verbatim>\<open>/^\d+\.\d+$/\<close> as a backtracking matcher. \<^verbatim>\<open>^\<close>
  holds at the start of the input only, so the pattern is tried there;
  \<^verbatim>\<open>$\<close> holds at its end only. \<open>testFrac k fs\<close> is \<^verbatim>\<open>\d+$\<close> on the input \<open>fs\<close>
  after the dot, the greedy quantifier taking \<open>k\<close> digits first and then
  fewer; \<open>testInt k s\<close> is \<^verbatim>\<open>\d+\.\d+$\<close> on \<open>s\<close> in the same way.
\<close>

fun testFrac :: "nat \<Rightarrow> jstring \<Rightarrow> bool" where
  "testFrac 0 fs = False"
| "testFrac (Suc k) fs = (if drop (Suc k) fs = [] then True else testFrac k fs)"

fun testInt :: "nat \<Rightarrow> jstring \<Rightarrow> bool" where
  "testInt 0 s = False"
| "testInt (Suc k) s =
     (case drop (Suc k) s of
        [] \<Rightarrow> testInt k s
      | c # fs \<Rightarrow>
          if c = dot \<and> testFrac (length (takeWhile isDigit fs)) fs then True
          else testInt k s)"

definition testAmountRegex :: "jstring \<Rightarrow> bool" where
  "testAmountRegex s = testInt (length (takeWhile isDigit s)) s"

text \<open>
  A cell value is a text field of a parsed row, or is missing (\<open>None\<close>,
  for null and undefined); \<^verbatim>\<open>!value\<close> holds for a missing value and for
  the empty string. Values of other types, which \<^verbatim>\<open>toString()\<close> would
  convert first, are outside the model.
\<close>

definition isAmount :: "jstring option \<Rightarrow> bool" where
  "isAmount v =
     (case v of
        None \<Rightarrow> False
      | Some s \<Rightarrow>
          if s = [] then False
          else let cleanValue = stripAmount (trim s) in testAmountRegex cleanValue)"

section \<open>Payment summary (Summary.jsx, PaymentSummaryTable)\<close>

text \<open>
  A field of an entry that holds an amount is absent (null or undefined),
  a string or a number.
\<close>

datatype jsval = Nullish | JStr jstring | JNum jsnum

text \<open>
  An entry of the processed data, with the two fields the summary reads.
  The payment type is a string or is absent (\<open>None\<close>).
\<close>

record entry =
  paymentType :: "jstring option"
  amount :: jsval

text \<open>
  A value of the object \<^verbatim>\<open>totals\<close>, with its fields \<^verbatim>\<open>count\<close> and \<^verbatim>\<open>amount\<close>
  (here \<open>amountSum\<close>), and an element of \<^verbatim>\<open>sortedTotals\<close>, which spreads
  such a value and adds \<^verbatim>\<open>type\<close> (here \<open>ptype\<close>) and \<^verbatim>\<open>percentage\<close>.
\<close>

record bucket =
  count :: nat
  amountSum :: jsnum

record item = bucket +
  ptype :: jstring
  percentage :: jsnum

record summary =
  items :: "item list"
  grandTotal :: jsnum

text \<open>The options of the selection; the selected model is one of them, initially \<^verbatim>\<open>All\<close>.\<close>

definition PAYMENT_MODELS :: "jstring list" where
  "PAYMENT_MODELS =
     [js ''All'', js ''Bayad Center'', js ''Bancnet'', js ''BDO'', js ''ECPay'', js ''SM'',
      js ''Eprime'', js ''LBC'', js ''Metrobank'', js ''Cebuana'', js ''PrimeTap'',
      js ''AllEasy'', js ''PNB'', js ''UnionBank'', js ''BDO-New'', js ''Unknown'']"

text \<open>
  \<^verbatim>\<open>selectedModel === 'All' ? entries : entries.filter(entry => entry.paymentType === selectedModel)\<close>.
  Strict equality with the selected string holds for an entry whose
  payment type is that very string.
\<close>

definition filteredEntries :: "jstring \<Rightarrow> entry list \<Rightarrow> entry list" where
  "filteredEntries selectedModel entries =
     (if selectedModel = js ''All'' then entries
      else filter (\<lambda>e. paymentType e = Some selectedModel) entries)"

text \<open>\<^verbatim>\<open>entry.paymentType || 'Unknown'\<close>: an absent or empty payment type is falsy.\<close>

definition bucketType :: "entry \<Rightarrow> jstring" where
  "bucketType e =
     (case paymentType e of
        None \<Rightarrow> js ''Unknown''
      | Some t \<Rightarrow> if t = [] then js ''Unknown'' else t)"

text \<open>
  \<^verbatim>\<open>s.replace(/[P,]/g, '')\<close>, where \<^verbatim>\<open>P\<close> stands for the peso sign of the
  source: the peso signs and commas are removed.
\<close>

definition stripCurrency :: "jstring \<Rightarrow> jstring" where
  "stripCurrency s = filter (\<lambda>c. \<not> (c = peso \<or> c = 44)) s"

text \<open>\<^verbatim>\<open>x || 0\<close> on a Number.\<close>

definition orZero :: "jsnum \<Rightarrow> jsnum" where
  "orZero x = (if truthy x then x else Fin 0)"

text \<open>
  \<^verbatim>\<open>parseFloat(entry.amount?.toString().replace(/[P,]/g, '')) || 0\<close>. For an absent
  amount the optional chain yields \<^verbatim>\<open>undefined\<close>, which parses to NaN. The
  string form of a Number has no peso sign or comma and parses back to the
  same Number.
\<close>

fun entryAmount :: "jsval \<Rightarrow> jsnum" where
  "entryAmount Nullish = orZero NaN"
| "entryAmount (JStr s) = orZero (parseFloat (stripCurrency s))"
| "entryAmount (JNum n) = orZero n"

text \<open>
  The object \<^verbatim>\<open>totals\<close> is a list of keys with their values, in the order
  in which the keys were created, which is the order of \<^verbatim>\<open>Object.entries\<close>
  for keys that are ordinary strings. (Keys that are names inherited from
  \<^verbatim>\<open>Object.prototype\<close> or that look like array indices are not modelled.)
\<close>

type_synonym totals = "(jstring \<times> bucket) list"

text \<open>
  The body of \<^verbatim>\<open>filteredEntries.forEach\<close>, acting on \<^verbatim>\<open>totals\<close> and
  \<^verbatim>\<open>grandTotal\<close>: create the bucket of the type when there is none, then add
  to its count and its amount, and to the grand total.
\<close>

definition addEntry :: "entry \<Rightarrow> totals \<times> jsnum \<Rightarrow> totals \<times> jsnum" where
  "addEntry e st =
     (let totals = fst st;
          grand = snd st;
          t = bucketType e;
          a = entryAmount (amount e);
          totals1 = (if map_of totals t = None
                     then totals @ [(t, \<lparr>count = 0, amountSum = Fin 0\<rparr>)] else totals);
          totals2 = map (\<lambda>(k, b). if k = t
                          then (k, b\<lparr>count := count b + 1, amountSum := jsadd (amountSum b) a\<rparr>)
                          else (k, b)) totals1
      in (totals2, jsadd grand a))"

text \<open>One element of \<^verbatim>\<open>sortedTotals\<close> before sorting; there is no test of the divisor.\<close>

definition mkItem :: "jsnum \<Rightarrow> jstring \<times> bucket \<Rightarrow> item" where
  "mkItem grand kv =
     \<lparr>count = count (snd kv), amountSum = amountSum (snd kv), ptype = fst kv,
      percentage = jsmul (jsdiv (amountSum (snd kv)) grand) (Fin 100)\<rparr>"

text \<open>
  \<^verbatim>\<open>.sort((a, b) => b.amount - a.amount)\<close>: \<open>a\<close> is placed after \<open>b\<close> when the
  comparator's result is positive; a result that is zero or NaN leaves the
  two in their order. The sort is stable; it is modelled as an insertion
  sort, which is what any stable sort computes for a consistent comparator.
\<close>

definition comesAfter :: "item \<Rightarrow> item \<Rightarrow> bool" where
  "comesAfter a b = jslt (Fin 0) (jssub (amountSum b) (amountSum a))"

fun insertItem :: "item \<Rightarrow> item list \<Rightarrow> item list" where
  "insertItem a [] = [a]"
| "insertItem a (b # bs) = (if comesAfter a b then b # insertItem a bs else a # b # bs)"

definition sortItems :: "item list \<Rightarrow> item list" where
  "sortItems xs = foldr insertItem xs []"

text \<open>
  The memoised value \<^verbatim>\<open>paymentTotals\<close> as a function of the selected model
  and the entries; \<open>None\<close> is an argument that is absent or not an array.
\<close>

definition paymentTotals :: "jstring \<Rightarrow> entry list option \<Rightarrow> summary" where
  "paymentTotals selectedModel entries =
     (case entries of
        None \<Rightarrow> \<lparr>items = [], grandTotal = Fin 0\<rparr>
      | Some es \<Rightarrow>
          let st = fold addEntry (filteredEntries selectedModel es) ([], Fin 0);
              sortedTotals = sortItems (map (mkItem (snd st)) (fst st))
          in \<lparr>items = sortedTotals, grandTotal = snd st\<rparr>)"

text \<open>
  For the statements about the summary: the sum of the amounts of a list
  of entries as the loop forms it, from left to right starting at 0, and
  the entries that fall into the bucket of a type.
\<close>

definition amountsTotal :: "entry list \<Rightarrow> jsnum" where
  "amountsTotal es = foldl jsadd (Fin 0) (map (\<lambda>e. entryAmount (amount e)) es)"

definition ofType :: "jstring \<Rightarrow> entry list \<Rightarrow> entry list" where
  "ofType t es = filter (\<lambda>e. bucketType e = t) es"

section \<open>Number formatting of the platform (locale en-PH)\<close>

text \<open>
  \<^verbatim>\<open>Intl.NumberFormat\<close> and \<^verbatim>\<open>Number.prototype.toLocaleString\<close> belong to the
  JavaScript engine. They are modelled from ECMA-402 for the locale en-PH
  with the minimum and the maximum number of fraction digits equal: the
  absolute value is rounded to that many decimals, a tie going away from
  zero; the integer digits are grouped in threes by commas; the decimal
  separator is a dot; a negative number carries a leading minus sign; NaN
  is written \<^verbatim>\<open>NaN\<close> and an infinity with the sign U+221E. In the currency
  style the peso sign stands before the digits, after the minus sign.
\<close>

fun natDigits :: "nat \<Rightarrow> jstring" where
  "natDigits n = (if n < 10 then [48 + n] else natDigits (n div 10) @ [48 + n mod 10])"

declare natDigits.simps [simp del]

definition padLeft :: "nat \<Rightarrow> jstring \<Rightarrow> jstring" where
  "padLeft d ds = replicate (d - length ds) 48 @ ds"

function groupDigits :: "jstring \<Rightarrow> jstring" where
  "groupDigits ds =
     (if length ds \<le> 3 then ds
      else groupDigits (take (length ds - 3) ds) @ 44 # drop (length ds - 3) ds)"
  by pat_completeness auto
termination
  by (relation "measure length") auto

declare groupDigits.simps [simp del]

definition unsignedDecimal :: "nat \<Rightarrow> rat \<Rightarrow> jstring" where
  "unsignedDecimal d q =
     (let n = nat \<lfloor>q * 10 ^ d + 1 / 2\<rfloor>
      in groupDigits (natDigits (n div 10 ^ d)) @
         (if d = 0 then [] else dot # padLeft d (natDigits (n mod 10 ^ d))))"

definition infinitySign :: nat where
  "infinitySign = 8734"

fun formatDecimal :: "nat \<Rightarrow> jsnum \<Rightarrow> jstring" where
  "formatDecimal d (Fin q) = (if q < 0 then [45] else []) @ unsignedDecimal d \<bar>q\<bar>"
| "formatDecimal d NaN = js ''NaN''"
| "formatDecimal d PInf = [infinitySign]"
| "formatDecimal d NInf = [45, infinitySign]"

fun formatCurrency :: "nat \<Rightarrow> jsnum \<Rightarrow> jstring" where
  "formatCurrency d (Fin q) = (if q < 0 then [45] else []) @ peso # unsignedDecimal d \<bar>q\<bar>"
| "formatCurrency d NaN = peso # js ''NaN''"
| "formatCurrency d PInf = [peso, infinitySign]"
| "formatCurrency d NInf = [45, peso, infinitySign]"

text \<open>
  Both formatters raise a RangeError when the number of fraction digits
  asked for exceeds the limit of the engine (20 up to ECMAScript 2022, 100
  since); the limit is the parameter \<open>fdMax\<close>.
\<close>

datatype error = RangeError

definition toLocaleString :: "nat \<Rightarrow> jsnum \<Rightarrow> nat \<Rightarrow> error + jstring" where
  "toLocaleString fdMax x d = (if fdMax < d then Inl RangeError else Inr (formatDecimal d x))"

definition numberFormatCurrency :: "nat \<Rightarrow> jsnum \<Rightarrow> nat \<Rightarrow> error + jstring" where
  "numberFormatCurrency fdMax x d = (if fdMax < d then Inl RangeError else Inr (formatCurrency d x))"

section \<open>Currency formatting (DataTable.jsx and Summary.jsx, formatAmount)\<close>

definition zeroAmount :: jstring where
  "zeroAmount = peso # js ''0.00''"

text \<open>
  \<^verbatim>\<open>cleanAmount.includes('.') ? cleanAmount.split('.')[1].length : 0\<close>: the
  length of the segment between the first dot and the next one (or the end).
\<close>

definition decimalPlacesOf :: "jstring \<Rightarrow> nat" where
  "decimalPlacesOf cleanAmount =
     (if dot \<in> set cleanAmount then
        (case dropWhile (\<lambda>c. c \<noteq> dot) cleanAmount of
           [] \<Rightarrow> 0
         | _ # rest \<Rightarrow> length (takeWhile (\<lambda>c. c \<noteq> dot) rest))
      else 0)"

text \<open>
  The body of the \<^verbatim>\<open>try\<close> block of \<^verbatim>\<open>formatAmount\<close> in DataTable.jsx; the
  value is a text field or is missing, as for \<open>isAmount\<close>. An exception
  raised in the body is the result \<open>Inl\<close>.
\<close>

definition formatAmountBody :: "nat \<Rightarrow> jstring option \<Rightarrow> error + jstring" where
  "formatAmountBody fdMax v =
     (case v of
        None \<Rightarrow> Inr zeroAmount
      | Some s \<Rightarrow>
          if s = [] then Inr zeroAmount
          else
            let cleanAmount = stripAmount (trim s);
                numAmount = parseFloat cleanAmount
            in if isNaN numAmount then Inr zeroAmount
               else
                 let decimalPlaces = decimalPlacesOf cleanAmount
                 in if decimalPlaces = 1 then
                      (case toLocaleString fdMax numAmount 1 of
                         Inl e \<Rightarrow> Inl e | Inr t \<Rightarrow> Inr (peso # t))
                    else if decimalPlaces = 2 then numberFormatCurrency fdMax numAmount 2
                    else
                      (case toLocaleString fdMax numAmount decimalPlaces of
                         Inl e \<Rightarrow> Inl e | Inr t \<Rightarrow> Inr (peso # t)))"

text \<open>\<^verbatim>\<open>formatAmount\<close> of DataTable.jsx: the \<^verbatim>\<open>catch\<close> clause returns the zero string.\<close>

definition formatAmount :: "nat \<Rightarrow> jstring option \<Rightarrow> jstring" where
  "formatAmount fdMax v =
     (case formatAmountBody fdMax v of Inl e \<Rightarrow> zeroAmount | Inr t \<Rightarrow> t)"

text \<open>
  \<^verbatim>\<open>formatAmount\<close> of Summary.jsx. \<^verbatim>\<open>!amount\<close> holds for an absent value, the
  empty string, 0 and NaN; a string is parsed after the peso signs and
  commas are removed, any other value is formatted as it is. There is no
  test of the parsed number.
\<close>

fun falsy :: "jsval \<Rightarrow> bool" where
  "falsy Nullish = True"
| "falsy (JStr s) = (s = [])"
| "falsy (JNum n) = (\<not> truthy n)"

definition summaryFormatAmountBody :: "nat \<Rightarrow> jsval \<Rightarrow> error + jstring" where
  "summaryFormatAmountBody fdMax a =
     (if falsy a then Inr zeroAmount
      else
        let numAmount = (case a of
                           JStr s \<Rightarrow> parseFloat (stripCurrency s)
                         | JNum n \<Rightarrow> n
                         | Nullish \<Rightarrow> NaN)
        in numberFormatCurrency fdMax numAmount 2)"

definition summaryFormatAmount :: "nat \<Rightarrow> jsval \<Rightarrow> jstring" where
  "summaryFormatAmount fdMax a =
     (case summaryFormatAmountBody fdMax a of Inl e \<Rightarrow> zeroAmount | Inr t \<Rightarrow> t)"


section \<open>Auxiliary notions of the proofs\<close>

text \<open>
  A string is white-space normal when each of its white space characters
  is a space that is not followed by white space; a separator is one of
  the three characters the line cleaner replaces.
\<close>

fun wsNorm :: "jstring \<Rightarrow> bool" where
  "wsNorm [] = True"
| "wsNorm [c] = (isWhiteSpace c \<longrightarrow> c = space)"
| "wsNorm (c # d # cs) =
     ((isWhiteSpace c \<longrightarrow> c = space \<and> \<not> isWhiteSpace d) \<and> wsNorm (d # cs))"

definition isSep :: "nat \<Rightarrow> bool" where
  "isSep c \<longleftrightarrow> c = 124 \<or> c = 94 \<or> c = 44"

definition replaceSeps :: "jstring \<Rightarrow> jstring" where
  "replaceSeps l = replaceChar 44 (replaceChar 94 (replaceChar 124 l))"



text \<open>The state of the loop after the entries \<open>es\<close>.\<close>

definition aggregate :: "entry list \<Rightarrow> totals \<times> jsnum" where
  "aggregate es = fold addEntry es ([], Fin 0)"

text \<open>The update of a bucket by one entry of the amount \<open>a\<close>.\<close>

definition bump :: "jsnum \<Rightarrow> bucket \<Rightarrow> bucket" where
  "bump a b = b\<lparr>count := count b + 1, amountSum := jsadd (amountSum b) a\<rparr>"

section \<open>Properties of the line cleaner\<close>

lemma wsNorm_Cons: "wsNorm (c # cs) \<Longrightarrow> wsNorm cs"
  by (cases cs) auto

lemma wsNorm_collapse_Cons:
  "wsNorm (c # cs) \<Longrightarrow> isWhiteSpace c \<Longrightarrow> dropWhile isWhiteSpace cs = cs"
  by (cases cs) auto

lemma collapseWs_fixed: "wsNorm r \<Longrightarrow> collapseWs r = r"
proof (induction r)
  case Nil
  then show ?case by simp
next
  case (Cons c cs)
  have tl: "wsNorm cs" using Cons.prems by (rule wsNorm_Cons)
  show ?case
  proof (cases "isWhiteSpace c")
    case True
    then have "dropWhile isWhiteSpace cs = cs" and "c = space"
      using Cons.prems by (cases cs; auto)+
    then show ?thesis using True Cons.IH tl by simp
  next
    case False
    then show ?thesis using Cons.IH tl by simp
  qed
qed

lemma hd_dropWhile_notws:
  "dropWhile isWhiteSpace xs \<noteq> [] \<Longrightarrow> \<not> isWhiteSpace (hd (dropWhile isWhiteSpace xs))"
  by (rule hd_dropWhile)

lemma space_ws: "isWhiteSpace space"
  by (simp add: isWhiteSpace_def space_def)

lemma wsNorm_collapseWs: "wsNorm (collapseWs s)"
proof (induction s rule: collapseWs.induct)
  case 1
  then show ?case by simp
next
  case (2 c cs)
  show ?case
  proof (cases "isWhiteSpace c")
    case True
    let ?d = "dropWhile isWhiteSpace cs"
    have ih: "wsNorm (collapseWs ?d)" using 2(1) True by simp
    show ?thesis
    proof (cases ?d)
      case Nil
      have "collapseWs ?d = []" by (simp only: Nil collapseWs.simps(1))
      then have "collapseWs (c # cs) = [space]" using True by simp
      then show ?thesis using space_ws by simp
    next
      case (Cons e es)
      then have "\<not> isWhiteSpace e" using hd_dropWhile[of isWhiteSpace cs] by simp
      then show ?thesis using True ih Cons by simp
    qed
  next
    case False
    have ih: "wsNorm (collapseWs cs)" using 2(2) False by simp
    then show ?thesis using False by (cases "collapseWs cs") auto
  qed
qed

lemma wsNorm_append_left: "wsNorm (xs @ ys) \<Longrightarrow> wsNorm xs"
proof (induction xs rule: wsNorm.induct)
  case 1
  then show ?case by simp
next
  case (2 c)
  then show ?case by (cases ys) auto
next
  case (3 c d cs)
  then show ?case by auto
qed

lemma wsNorm_dropWhile: "wsNorm xs \<Longrightarrow> wsNorm (dropWhile P xs)"
  by (induction xs) (auto dest: wsNorm_Cons)

lemma rev_dropWhile_rev_prefix:
  "xs = rev (dropWhile P (rev xs)) @ rev (takeWhile P (rev xs))"
proof -
  have "rev xs = takeWhile P (rev xs) @ dropWhile P (rev xs)" by simp
  then have "rev (rev xs) = rev (takeWhile P (rev xs) @ dropWhile P (rev xs))" by (rule arg_cong)
  then show ?thesis by (simp only: rev_append rev_rev_ident)
qed

lemma wsNorm_trim: "wsNorm xs \<Longrightarrow> wsNorm (trim xs)"
proof -
  assume a: "wsNorm xs"
  let ?d = "dropWhile isWhiteSpace xs"
  have d: "wsNorm ?d" using a by (rule wsNorm_dropWhile)
  have "?d = trim xs @ rev (takeWhile isWhiteSpace (rev ?d))"
    unfolding trim_def by (rule rev_dropWhile_rev_prefix)
  then have "wsNorm (trim xs @ rev (takeWhile isWhiteSpace (rev ?d)))" using d by simp
  then show ?thesis by (rule wsNorm_append_left)
qed

lemma trim_idem: "trim (trim xs) = trim xs"
proof -
  let ?d = "dropWhile isWhiteSpace xs"
  let ?t = "trim xs"
  have pre: "?d = ?t @ rev (takeWhile isWhiteSpace (rev ?d))"
    unfolding trim_def by (rule rev_dropWhile_rev_prefix)
  have front: "dropWhile isWhiteSpace ?t = ?t"
  proof (cases ?t)
    case Nil
    then show ?thesis by simp
  next
    case (Cons c cs)
    then have "hd ?d = c" using pre by (metis hd_append2 list.sel(1) list.distinct(1))
    moreover have "?d \<noteq> []" using pre Cons by (metis append_is_Nil_conv list.distinct(1))
    ultimately have "\<not> isWhiteSpace c" using hd_dropWhile[of isWhiteSpace xs] by simp
    then show ?thesis using Cons by simp
  qed
  have "trim ?t = rev (dropWhile isWhiteSpace (rev ?t))"
    unfolding trim_def[of ?t] using front by simp
  also have "rev ?t = dropWhile isWhiteSpace (rev ?d)" by (simp add: trim_def)
  finally show ?thesis by (simp add: trim_def)
qed

lemma replaceSeps_noSep: "c \<in> set (replaceSeps l) \<Longrightarrow> \<not> isSep c"
  by (auto simp: replaceSeps_def replaceChar_def isSep_def space_def split: if_splits)

lemma set_collapseWs: "set (collapseWs s) \<subseteq> insert space (set s)"
proof (induction s rule: collapseWs.induct)
  case 1
  then show ?case by simp
next
  case (2 c cs)
  have "set (dropWhile isWhiteSpace cs) \<subseteq> set cs" by (rule set_dropWhileD[THEN subsetI])
  then show ?case using 2 by (auto split: if_splits)
qed

lemma set_trim: "set (trim s) \<subseteq> set s"
proof
  fix x assume "x \<in> set (trim s)"
  then have "x \<in> set (dropWhile isWhiteSpace (rev (dropWhile isWhiteSpace s)))"
    by (simp add: trim_def)
  then have "x \<in> set (rev (dropWhile isWhiteSpace s))" by (rule set_dropWhileD)
  then have "x \<in> set (dropWhile isWhiteSpace s)" by simp
  then show "x \<in> set s" by (rule set_dropWhileD)
qed

lemma replaceSeps_fixed: "\<forall>c\<in>set r. \<not> isSep c \<Longrightarrow> replaceSeps r = r"
  by (induction r) (auto simp: replaceSeps_def replaceChar_def isSep_def)

text \<open>
  Claim C7. Cleaning is idempotent: cleaning an already cleaned line (the
  result of replacing \<^verbatim>\<open>|\<close>, \<^verbatim>\<open>^\<close> and \<^verbatim>\<open>,\<close> by a space, collapsing every run
  of white space to one space and trimming) returns it unchanged, for every
  string and for a null line.
\<close>

theorem clean_idempotent: "cleanLineContent (Some (cleanLineContent line)) = cleanLineContent line"
proof (cases line)
  case None
  then show ?thesis by (simp add: cleanLineContent_def)
next
  case (Some l)
  show ?thesis
  proof (cases "l = []")
    case True
    then show ?thesis using Some by (simp add: cleanLineContent_def)
  next
    case False
    let ?r = "trim (collapseWs (replaceSeps l))"
    have r: "cleanLineContent line = ?r"
      using Some False by (simp add: cleanLineContent_def replaceSeps_def)
    have nosep: "\<forall>c\<in>set ?r. \<not> isSep c"
    proof
      fix c assume "c \<in> set ?r"
      then have "c \<in> insert space (set (replaceSeps l))"
        using set_trim set_collapseWs by blast
      then show "\<not> isSep c"
        using replaceSeps_noSep by (auto simp: isSep_def space_def)
    qed
    have norm: "wsNorm ?r" by (intro wsNorm_trim wsNorm_collapseWs)
    have "trim (collapseWs (replaceSeps ?r)) = ?r"
      using replaceSeps_fixed[OF nosep] collapseWs_fixed[OF norm] trim_idem by simp
    then have "cleanLineContent (Some ?r) = ?r"
      by (simp add: cleanLineContent_def replaceSeps_def)
    then show ?thesis using r by simp
  qed
qed

section \<open>Properties of the amount extractor\<close>


lemmas string_eval = js_def isWhiteSpace_def isDigit_def isWordChar_def dot_def space_def peso_def


lemmas parse_eval = parseFloat_def parseUnsigned_def digitsVal_def pow10_def exponentPart_def












section \<open>The regular expression of the amount extractor\<close>


lemma dot_not_digit: "\<not> isDigit dot"
  by (simp add: isDigit_def dot_def)

lemma digit_run_nth:
  "i < length (takeWhile isDigit s) \<Longrightarrow> isDigit (s ! i)"
  by (metis nth_mem set_takeWhileD takeWhile_nth)

lemma digit_run_le: "length (takeWhile isDigit s) \<le> length s"
  by (rule length_takeWhile_le)



















section \<open>Properties of the value-level amount test\<close>

lemma testFrac_iff: "testFrac k fs \<longleftrightarrow> 0 < k \<and> length fs \<le> k"
  by (induction k) auto

lemma all_digits_run: "length fs \<le> length (takeWhile isDigit fs) \<longleftrightarrow> (\<forall>c \<in> set fs. isDigit c)"
proof
  assume "length fs \<le> length (takeWhile isDigit fs)"
  then have "length (takeWhile isDigit fs) = length fs"
    using length_takeWhile_le[of isDigit fs] by simp
  then have "takeWhile isDigit fs = fs"
    by (metis takeWhile_eq_take take_all order_refl)
  then show "\<forall>c \<in> set fs. isDigit c" by (metis set_takeWhileD)
next
  assume "\<forall>c \<in> set fs. isDigit c"
  then have e: "takeWhile isDigit fs = fs" by (simp add: takeWhile_eq_all_conv)
  show "length fs \<le> length (takeWhile isDigit fs)" unfolding e by simp
qed

lemma testFrac_greedy:
  "testFrac (length (takeWhile isDigit fs)) fs \<longleftrightarrow> fs \<noteq> [] \<and> (\<forall>c \<in> set fs. isDigit c)"
proof (cases "fs = []")
  case True
  then show ?thesis by simp
next
  case False
  have "0 < length (takeWhile isDigit fs) \<and> length fs \<le> length (takeWhile isDigit fs)
        \<longleftrightarrow> length fs \<le> length (takeWhile isDigit fs)"
    using False by (cases fs) auto
  then show ?thesis unfolding testFrac_iff all_digits_run using False by simp
qed

lemma testInt_short: "k < length (takeWhile isDigit s) \<Longrightarrow> \<not> testInt k s"
proof (induction k)
  case 0
  then show ?case by simp
next
  case (Suc k)
  have lt: "Suc k < length s" using Suc.prems digit_run_le[of s] by simp
  then have d: "drop (Suc k) s = s ! Suc k # drop (Suc (Suc k)) s"
    by (simp add: Cons_nth_drop_Suc)
  have "isDigit (s ! Suc k)" using Suc.prems by (rule digit_run_nth)
  then have "s ! Suc k \<noteq> dot" using dot_not_digit by auto
  then show ?case using Suc d by (simp del: drop_Suc)
qed

lemma testAmountRegex_greedy:
  "testAmountRegex s \<longleftrightarrow>
     takeWhile isDigit s \<noteq> [] \<and>
     (case dropWhile isDigit s of
        [] \<Rightarrow> False
      | c # fs \<Rightarrow> c = dot \<and> fs \<noteq> [] \<and> (\<forall>c \<in> set fs. isDigit c))"
proof (cases "length (takeWhile isDigit s)")
  case 0
  then show ?thesis by (simp add: testAmountRegex_def)
next
  case (Suc k)
  have dr: "drop (Suc k) s = dropWhile isDigit s"
    using Suc dropWhile_eq_drop[of isDigit s] by simp
  have short: "testInt k s = False" using Suc testInt_short[of k s] by simp
  have ne: "takeWhile isDigit s \<noteq> []" using Suc by auto
  have step: "testInt (Suc k) s =
     (case dropWhile isDigit s of
        [] \<Rightarrow> False
      | c # fs \<Rightarrow>
          if c = dot \<and> testFrac (length (takeWhile isDigit fs)) fs then True else False)"
    unfolding testInt.simps(2) dr short ..
  show ?thesis
  proof (cases "dropWhile isDigit s")
    case Nil
    show ?thesis unfolding testAmountRegex_def Suc step Nil by simp
  next
    case (Cons c fs)
    show ?thesis unfolding testAmountRegex_def Suc step testFrac_greedy Cons using ne by simp
  qed
qed

lemma testAmountRegex_iff:
  "testAmountRegex s \<longleftrightarrow>
     (\<exists>ip fp. s = ip @ dot # fp \<and> ip \<noteq> [] \<and> (\<forall>c \<in> set ip. isDigit c) \<and>
        fp \<noteq> [] \<and> (\<forall>c \<in> set fp. isDigit c))"
  (is "?L \<longleftrightarrow> ?R")
proof
  assume ?L
  then have ne: "takeWhile isDigit s \<noteq> []"
    and c: "case dropWhile isDigit s of [] \<Rightarrow> False
      | c # fs \<Rightarrow> c = dot \<and> fs \<noteq> [] \<and> (\<forall>c \<in> set fs. isDigit c)"
    unfolding testAmountRegex_greedy by simp_all
  from c obtain fs where fs: "dropWhile isDigit s = dot # fs" "fs \<noteq> []" "\<forall>c \<in> set fs. isDigit c"
    by (auto split: list.splits)
  have "s = takeWhile isDigit s @ dropWhile isDigit s" by simp
  then have s: "s = takeWhile isDigit s @ dot # fs" unfolding fs(1) .
  have "\<forall>c \<in> set (takeWhile isDigit s). isDigit c" by (auto dest: set_takeWhileD)
  then show ?R using s ne fs(2,3) by blast
next
  assume ?R
  then obtain ip fp where r: "s = ip @ dot # fp" "ip \<noteq> []" "\<forall>c \<in> set ip. isDigit c"
    "fp \<noteq> []" "\<forall>c \<in> set fp. isDigit c" by blast
  have t1: "takeWhile isDigit s = ip"
    unfolding r(1) using r(3) dot_not_digit by (simp add: takeWhile_append2)
  have t2: "dropWhile isDigit s = dot # fp"
    unfolding r(1) using r(3) dot_not_digit by (simp add: dropWhile_append2)
  show ?L unfolding testAmountRegex_greedy t1 t2 using r by simp
qed

text \<open>
  Claim C8. The value-level amount test removes the peso signs, commas
  and white space from a field value and accepts it exactly when all of
  what remains is one or more digits, a dot and one or more digits; a
  missing value is rejected. It accepts the value made of the peso sign
  and \<^verbatim>\<open>1,234.50\<close>, and rejects \<^verbatim>\<open>1234\<close>.
\<close>

theorem isAmount_whole_string:
  "(isAmount v \<longleftrightarrow>
      (\<exists>s ip fp. v = Some s \<and> stripAmount (trim s) = ip @ dot # fp \<and>
         ip \<noteq> [] \<and> (\<forall>c \<in> set ip. isDigit c) \<and> fp \<noteq> [] \<and> (\<forall>c \<in> set fp. isDigit c)))
   \<and> (\<forall>c \<in> set (stripAmount (trim s)). c \<noteq> peso \<and> c \<noteq> 44 \<and> \<not> isWhiteSpace c)
   \<and> stripAmount (trim (peso # js ''1,234.50'')) = js ''1234.50''
   \<and> isAmount (Some (peso # js ''1,234.50''))
   \<and> \<not> isAmount (Some (js ''1234''))"
proof (intro conjI)
  show "isAmount v \<longleftrightarrow>
      (\<exists>s ip fp. v = Some s \<and> stripAmount (trim s) = ip @ dot # fp \<and>
         ip \<noteq> [] \<and> (\<forall>c \<in> set ip. isDigit c) \<and> fp \<noteq> [] \<and> (\<forall>c \<in> set fp. isDigit c))"
  proof (cases v)
    case None
    then show ?thesis by (simp add: isAmount_def)
  next
    case (Some s)
    show ?thesis
    proof (cases "s = []")
      case True
      then show ?thesis using Some by (simp add: isAmount_def trim_def stripAmount_def)
    next
      case False
      then have "isAmount v \<longleftrightarrow> testAmountRegex (stripAmount (trim s))"
        using Some by (simp add: isAmount_def)
      then show ?thesis unfolding testAmountRegex_iff using Some by simp
    qed
  qed
  show "\<forall>c \<in> set (stripAmount (trim s)). c \<noteq> peso \<and> c \<noteq> 44 \<and> \<not> isWhiteSpace c"
    by (auto simp: stripAmount_def)
  show "stripAmount (trim (peso # js ''1,234.50'')) = js ''1234.50''"
    by (simp add: stripAmount_def trim_def string_eval)
  show "isAmount (Some (peso # js ''1,234.50''))"
    by (simp add: isAmount_def testAmountRegex_def stripAmount_def trim_def string_eval)
  show "\<not> isAmount (Some (js ''1234''))"
    by (simp add: isAmount_def testAmountRegex_def stripAmount_def trim_def string_eval)
qed

theorem isAmount_whole_string_witness:
  "isAmount (Some (js '' 0.5 '')) \<and> \<not> isAmount (Some (js ''12.5kg''))
   \<and> stripAmount (trim (js '' 0.5 '')) = js ''0.5''"
proof -
  note th = isAmount_whole_string[of "Some (js '' 0.5 '')" "js '' 0.5 ''"]
  have st: "stripAmount (trim (js '' 0.5 '')) = js ''0.5''"
    by (simp add: stripAmount_def trim_def string_eval)
  have "\<exists>s ip fp. Some (js '' 0.5 '') = Some s \<and> stripAmount (trim s) = ip @ dot # fp \<and>
         ip \<noteq> [] \<and> (\<forall>c \<in> set ip. isDigit c) \<and> fp \<noteq> [] \<and> (\<forall>c \<in> set fp. isDigit c)"
    by (intro exI[of _ "js '' 0.5 ''"] exI[of _ "js ''0''"] exI[of _ "js ''5''"])
       (simp add: st, simp add: string_eval)
  then have a: "isAmount (Some (js '' 0.5 ''))" using th[THEN conjunct1] by blast
  have b: "\<not> isAmount (Some (js ''12.5kg''))"
    by (simp add: isAmount_def testAmountRegex_def stripAmount_def trim_def string_eval)
  show ?thesis using a b st by simp
qed

section \<open>Properties of the payment summary\<close>

lemma set_insertItem: "set (insertItem a bs) = insert a (set bs)"
  by (induction bs) auto

lemma set_sortItems: "set (sortItems xs) = set xs"
  unfolding sortItems_def by (induction xs) (simp_all add: set_insertItem)

lemma length_insertItem: "length (insertItem a bs) = Suc (length bs)"
  by (induction bs) auto

lemma length_sortItems: "length (sortItems xs) = length xs"
  unfolding sortItems_def by (induction xs) (simp_all add: length_insertItem)

lemma sortItems_single: "sortItems [a] = [a]"
  by (simp add: sortItems_def)

lemma amountsTotal_snoc:
  "amountsTotal (es @ [e]) = jsadd (amountsTotal es) (entryAmount (amount e))"
  by (simp add: amountsTotal_def)

lemma ofType_snoc:
  "ofType t (es @ [e]) = (if bucketType e = t then ofType t es @ [e] else ofType t es)"
  by (simp add: ofType_def)

lemma aggregate_snoc: "aggregate (es @ [e]) = addEntry e (aggregate es)"
  by (simp add: aggregate_def)

lemma map_of_map_key:
  "map_of (map (\<lambda>(k, b). if k = t then (k, f b) else (k, b)) xs) k' =
     (if k' = t then map_option f (map_of xs k') else map_of xs k')"
  by (induction xs) auto

lemma map_fst_map_key:
  "map fst (map (\<lambda>(k, b). if k = t then (k, f b) else (k, b)) xs) = map fst xs"
  by (induction xs) auto

lemma addEntry_unfold:
  "addEntry e (tot, g) =
     (map (\<lambda>(k, b). if k = bucketType e then (k, bump (entryAmount (amount e)) b) else (k, b))
        (if map_of tot (bucketType e) = None
         then tot @ [(bucketType e, \<lparr>count = 0, amountSum = Fin 0\<rparr>)] else tot),
      jsadd g (entryAmount (amount e)))"
  unfolding addEntry_def Let_def bump_def fst_conv snd_conv by (rule refl)

lemma addEntry_lookup:
  "map_of (fst (addEntry e st)) t =
     (if t = bucketType e
      then Some (bump (entryAmount (amount e))
             (case map_of (fst st) t of
                None \<Rightarrow> \<lparr>count = 0, amountSum = Fin 0\<rparr> | Some b \<Rightarrow> b))
      else map_of (fst st) t)"
proof (cases st)
  case (Pair tot g)
  show ?thesis
    unfolding Pair addEntry_unfold fst_conv map_of_map_key
    by (auto simp: map_add_def split: option.splits)
qed

lemma addEntry_keys:
  "map fst (fst (addEntry e st)) =
     (if map_of (fst st) (bucketType e) = None
      then map fst (fst st) @ [bucketType e] else map fst (fst st))"
proof (cases st)
  case (Pair tot g)
  show ?thesis unfolding Pair addEntry_unfold fst_conv map_fst_map_key by simp
qed

lemma addEntry_distinct:
  "distinct (map fst (fst st)) \<Longrightarrow> distinct (map fst (fst (addEntry e st)))"
  unfolding addEntry_keys by (auto simp: map_of_eq_None_iff)

lemma addEntry_grand: "snd (addEntry e st) = jsadd (snd st) (entryAmount (amount e))"
proof (cases st)
  case (Pair tot g)
  show ?thesis unfolding Pair addEntry_unfold by simp
qed

lemma aggregate_distinct: "distinct (map fst (fst (aggregate es)))"
proof (induction es rule: rev_induct)
  case Nil
  then show ?case by (simp add: aggregate_def)
next
  case (snoc e es)
  then show ?case
    unfolding aggregate_snoc by (rule addEntry_distinct)
qed

lemma aggregate_grand: "snd (aggregate es) = amountsTotal es"
proof (induction es rule: rev_induct)
  case Nil
  then show ?case by (simp add: aggregate_def amountsTotal_def)
next
  case (snoc e es)
  then show ?case
    unfolding aggregate_snoc amountsTotal_snoc addEntry_grand by simp
qed

lemma aggregate_lookup:
  "map_of (fst (aggregate es)) t =
     (if ofType t es = [] then None
      else Some \<lparr>count = length (ofType t es), amountSum = amountsTotal (ofType t es)\<rparr>)"
proof (induction es rule: rev_induct)
  case Nil
  then show ?case by (simp add: aggregate_def ofType_def)
next
  case (snoc e es)
  have step: "map_of (fst (aggregate (es @ [e]))) t =
     (if t = bucketType e
      then Some (bump (entryAmount (amount e))
             (case map_of (fst (aggregate es)) t of
                None \<Rightarrow> \<lparr>count = 0, amountSum = Fin 0\<rparr> | Some b \<Rightarrow> b))
      else map_of (fst (aggregate es)) t)"
    unfolding aggregate_snoc by (rule addEntry_lookup)
  show ?case
  proof (cases "t = bucketType e")
    case False
    then show ?thesis unfolding step snoc.IH by (simp add: ofType_snoc)
  next
    case True
    show ?thesis
    proof (cases "ofType t es = []")
      case e0: True
      then show ?thesis unfolding step snoc.IH using True
        by (simp add: ofType_snoc bump_def amountsTotal_def)
    next
      case False
      then show ?thesis unfolding step snoc.IH using True
        by (simp add: ofType_snoc bump_def amountsTotal_snoc)
    qed
  qed
qed

lemma aggregate_member:
  "(t, b) \<in> set (fst (aggregate es)) \<longleftrightarrow>
     ofType t es \<noteq> [] \<and> b = \<lparr>count = length (ofType t es), amountSum = amountsTotal (ofType t es)\<rparr>"
proof -
  have "(t, b) \<in> set (fst (aggregate es)) \<longleftrightarrow> map_of (fst (aggregate es)) t = Some b"
    using aggregate_distinct[of es] by simp
  then show ?thesis unfolding aggregate_lookup by auto
qed

lemma paymentTotals_unfold:
  "paymentTotals sel (Some es) =
     \<lparr>items = sortItems (map (mkItem (amountsTotal (filteredEntries sel es)))
                 (fst (aggregate (filteredEntries sel es)))),
      grandTotal = amountsTotal (filteredEntries sel es)\<rparr>"
  by (simp add: paymentTotals_def Let_def aggregate_def[symmetric] aggregate_grand)

text \<open>
  Every row of the summary is the bucket of a type that occurs among the
  filtered entries: its count is the number of those entries, its amount
  their sum, and its percentage the quotient by the grand total, times 100.
\<close>

lemma paymentTotals_item:
  "it \<in> set (items (paymentTotals sel (Some es))) \<longleftrightarrow>
     ofType (ptype it) (filteredEntries sel es) \<noteq> [] \<and>
     it = \<lparr>count = length (ofType (ptype it) (filteredEntries sel es)),
           amountSum = amountsTotal (ofType (ptype it) (filteredEntries sel es)),
           ptype = ptype it,
           percentage = jsmul (jsdiv (amountsTotal (ofType (ptype it) (filteredEntries sel es)))
                                (amountsTotal (filteredEntries sel es))) (Fin 100)\<rparr>"
  (is "?L \<longleftrightarrow> ?R")
proof
  let ?fes = "filteredEntries sel es"
  assume ?L
  then obtain t b where tb: "(t, b) \<in> set (fst (aggregate ?fes))"
    "it = mkItem (amountsTotal ?fes) (t, b)"
    unfolding paymentTotals_unfold by (auto simp: set_sortItems)
  have pt: "ptype it = t" using tb(2) by (simp add: mkItem_def)
  show ?R using tb unfolding aggregate_member pt by (simp add: mkItem_def)
next
  let ?fes = "filteredEntries sel es"
  let ?t = "ptype it"
  let ?b = "\<lparr>count = length (ofType ?t ?fes), amountSum = amountsTotal (ofType ?t ?fes)\<rparr>"
  assume r: ?R
  then have "(?t, ?b) \<in> set (fst (aggregate ?fes))" unfolding aggregate_member by simp
  moreover have "it = mkItem (amountsTotal ?fes) (?t, ?b)"
    using r by (simp add: mkItem_def)
  ultimately show ?L unfolding paymentTotals_unfold by (auto simp: set_sortItems)
qed

lemma paymentTotals_grand:
  "grandTotal (paymentTotals sel (Some es)) = amountsTotal (filteredEntries sel es)"
  unfolding paymentTotals_unfold by simp

lemmas summary_eval = paymentTotals_def filteredEntries_def addEntry_def bucketType_def
  mkItem_def sortItems_def comesAfter_def jssub_def orZero_def stripCurrency_def Let_def

lemma percentage_zero_divisor: "jsmul (jsdiv a (Fin 0)) (Fin 100) \<noteq> Fin q"
  by (cases a) auto

lemma percentage_zero_zero: "jsmul (jsdiv (Fin 0) (Fin 0)) (Fin 100) = NaN"
  by simp

lemma amountsTotal_zero:
  "\<forall>e \<in> set es. entryAmount (amount e) = Fin 0 \<Longrightarrow> amountsTotal es = Fin 0"
  by (induction es rule: rev_induct) (simp_all add: amountsTotal_snoc, simp add: amountsTotal_def)

lemma paymentTotals_percentage:
  "it \<in> set (items (paymentTotals sel (Some es))) \<Longrightarrow>
     percentage it = jsmul (jsdiv (amountSum it) (grandTotal (paymentTotals sel (Some es)))) (Fin 100)"
proof -
  assume a: "it \<in> set (items (paymentTotals sel (Some es)))"
  let ?fes = "filteredEntries sel es"
  let ?s = "amountsTotal (ofType (ptype it) ?fes)"
  have "it = \<lparr>count = length (ofType (ptype it) ?fes), amountSum = ?s, ptype = ptype it,
           percentage = jsmul (jsdiv ?s (amountsTotal ?fes)) (Fin 100)\<rparr>"
    using a unfolding paymentTotals_item by simp
  then have "amountSum it = ?s" "percentage it = jsmul (jsdiv ?s (amountsTotal ?fes)) (Fin 100)"
    by (metis bucket.select_convs(2), metis item.select_convs(2))
  then show ?thesis unfolding paymentTotals_grand by simp
qed

text \<open>
  Claim C1, as amended. The percentage of a bucket is always its amount
  divided by the grand total, times 100, in the arithmetic of JavaScript;
  there is no guard. When the grand total is 0 the percentage of a bucket
  is therefore never a finite number, so never 0: it is NaN for a bucket
  whose amount is 0 (and an infinity otherwise). In particular, when every
  entry of the current view has a null or zero amount, the grand total is
  0 and every percentage is NaN.
\<close>

theorem percentage_division_unguarded:
  "(\<forall>it \<in> set (items (paymentTotals sel (Some es))).
       percentage it =
         jsmul (jsdiv (amountSum it) (grandTotal (paymentTotals sel (Some es)))) (Fin 100))
   \<and> (grandTotal (paymentTotals sel (Some es)) = Fin 0 \<longrightarrow>
        (\<forall>it \<in> set (items (paymentTotals sel (Some es))).
           (\<forall>q. percentage it \<noteq> Fin q) \<and> (amountSum it = Fin 0 \<longrightarrow> percentage it = NaN)))
   \<and> ((\<forall>e \<in> set (filteredEntries sel es). entryAmount (amount e) = Fin 0) \<longrightarrow>
        grandTotal (paymentTotals sel (Some es)) = Fin 0 \<and>
        (\<forall>it \<in> set (items (paymentTotals sel (Some es))). percentage it = NaN))
   \<and> entryAmount Nullish = Fin 0 \<and> entryAmount (JNum (Fin 0)) = Fin 0
   \<and> entryAmount (JStr (js ''0.00'')) = Fin 0"
proof (intro conjI)
  let ?r = "paymentTotals sel (Some es)"
  let ?fes = "filteredEntries sel es"
  show p: "\<forall>it \<in> set (items ?r).
       percentage it = jsmul (jsdiv (amountSum it) (grandTotal ?r)) (Fin 100)"
    using paymentTotals_percentage by blast
  show "grandTotal ?r = Fin 0 \<longrightarrow>
        (\<forall>it \<in> set (items ?r).
           (\<forall>q. percentage it \<noteq> Fin q) \<and> (amountSum it = Fin 0 \<longrightarrow> percentage it = NaN))"
  proof (intro impI ballI)
    fix it assume g: "grandTotal ?r = Fin 0" and it: "it \<in> set (items ?r)"
    have "percentage it = jsmul (jsdiv (amountSum it) (Fin 0)) (Fin 100)"
      using p it g by simp
    then show "(\<forall>q. percentage it \<noteq> Fin q) \<and> (amountSum it = Fin 0 \<longrightarrow> percentage it = NaN)"
      using percentage_zero_divisor[of "amountSum it"] percentage_zero_zero by simp
  qed
  show "(\<forall>e \<in> set ?fes. entryAmount (amount e) = Fin 0) \<longrightarrow>
        grandTotal ?r = Fin 0 \<and> (\<forall>it \<in> set (items ?r). percentage it = NaN)"
  proof (intro impI conjI ballI)
    assume z: "\<forall>e \<in> set ?fes. entryAmount (amount e) = Fin 0"
    show g: "grandTotal ?r = Fin 0"
      unfolding paymentTotals_grand using z by (rule amountsTotal_zero)
    fix it assume it: "it \<in> set (items ?r)"
    have "\<forall>e \<in> set (ofType (ptype it) ?fes). entryAmount (amount e) = Fin 0"
      using z by (simp add: ofType_def)
    then have "amountsTotal (ofType (ptype it) ?fes) = Fin 0" by (rule amountsTotal_zero)
    moreover have "amountSum it = amountsTotal (ofType (ptype it) ?fes)"
      using it unfolding paymentTotals_item by (metis bucket.select_convs(2))
    ultimately have "amountSum it = Fin 0" by simp
    then show "percentage it = NaN" using p it g by simp
  qed
  show "entryAmount Nullish = Fin 0" by (simp add: orZero_def)
  show "entryAmount (JNum (Fin 0)) = Fin 0" by (simp add: orZero_def)
  show "entryAmount (JStr (js ''0.00'')) = Fin 0"
    by (simp add: orZero_def stripCurrency_def string_eval parse_eval)
qed

text \<open>
  The claim as stated fails: for one entry of type BDO without an amount
  the grand total is 0 and the percentage of the only bucket is NaN, not 0.
\<close>

theorem percentage_zero_total_counterexample:
  "grandTotal (paymentTotals (js ''All'')
      (Some [\<lparr>paymentType = Some (js ''BDO''), amount = Nullish\<rparr>])) = Fin 0
   \<and> map percentage (items (paymentTotals (js ''All'')
      (Some [\<lparr>paymentType = Some (js ''BDO''), amount = Nullish\<rparr>]))) = [NaN]
   \<and> NaN \<noteq> Fin 0"
  by (simp add: summary_eval js_def)

theorem percentage_division_unguarded_witness:
  "grandTotal (paymentTotals (js ''All'')
      (Some [\<lparr>paymentType = Some (js ''BDO''), amount = Nullish\<rparr>,
             \<lparr>paymentType = Some (js ''SM''), amount = JStr (js ''0.00'')\<rparr>])) = Fin 0
   \<and> list_all (\<lambda>it. percentage it = NaN) (items (paymentTotals (js ''All'')
      (Some [\<lparr>paymentType = Some (js ''BDO''), amount = Nullish\<rparr>,
             \<lparr>paymentType = Some (js ''SM''), amount = JStr (js ''0.00'')\<rparr>])))"
proof -
  let ?es = "[\<lparr>paymentType = Some (js ''BDO''), amount = Nullish\<rparr>,
             \<lparr>paymentType = Some (js ''SM''), amount = JStr (js ''0.00'')\<rparr>]"
  note th = percentage_division_unguarded[of "js ''All''" ?es]
  have z: "\<forall>e \<in> set (filteredEntries (js ''All'') ?es). entryAmount (amount e) = Fin 0"
    by (simp add: filteredEntries_def orZero_def stripCurrency_def string_eval parse_eval)
  have "grandTotal (paymentTotals (js ''All'') (Some ?es)) = Fin 0 \<and>
        (\<forall>it \<in> set (items (paymentTotals (js ''All'') (Some ?es))). percentage it = NaN)"
    using th[THEN conjunct2, THEN conjunct2, THEN conjunct1] z by blast
  then show ?thesis by (simp add: list_all_iff)
qed

lemma distinct_singleton_set:
  assumes "distinct xs" "set xs = {y}"
  shows "xs = [y]"
proof -
  have "length xs = card (set xs)" using assms(1) by (simp add: distinct_card)
  then have "length xs = 1" using assms(2) by simp
  then obtain z where "xs = [z]" by (cases xs) auto
  then show ?thesis using assms(2) by simp
qed

lemma aggregate_Nil: "aggregate [] = ([], Fin 0)"
  by (simp add: aggregate_def)

lemma aggregate_single_type:
  assumes "m \<noteq> []" "\<forall>e \<in> set m. bucketType e = t"
  shows "fst (aggregate m) = [(t, \<lparr>count = length m, amountSum = amountsTotal m\<rparr>)]"
proof -
  have all: "ofType t m = m" using assms(2) by (simp add: ofType_def)
  have none: "ofType t' m = []" if "t' \<noteq> t" for t'
    using assms(2) that by (auto simp: ofType_def filter_empty_conv)
  have "set (fst (aggregate m)) = {(t, \<lparr>count = length m, amountSum = amountsTotal m\<rparr>)}"
  proof (intro set_eqI iffI)
    fix x assume xin: "x \<in> set (fst (aggregate m))"
    obtain t' b where xp: "x = (t', b)" by (cases x)
    have x: "x = (t', b)" "(t', b) \<in> set (fst (aggregate m))" using xin xp by simp_all
    then have "ofType t' m \<noteq> []" unfolding aggregate_member by simp
    then have "t' = t" using none by blast
    then show "x \<in> {(t, \<lparr>count = length m, amountSum = amountsTotal m\<rparr>)}"
      using x unfolding aggregate_member by (simp add: all)
  next
    fix x assume "x \<in> {(t, \<lparr>count = length m, amountSum = amountsTotal m\<rparr>)}"
    then show "x \<in> set (fst (aggregate m))"
      using assms(1) all by (simp add: aggregate_member)
  qed
  moreover have "distinct (fst (aggregate m))"
    using aggregate_distinct[of m] by (simp add: distinct_map)
  ultimately show ?thesis by (intro distinct_singleton_set)
qed

lemma filtered_specific:
  "sel \<noteq> js ''All'' \<Longrightarrow>
     filteredEntries sel es = filter (\<lambda>e. paymentType e = Some sel) es"
  by (simp add: filteredEntries_def)

lemma filtered_all: "filteredEntries (js ''All'') es = es"
  by (simp add: filteredEntries_def)

text \<open>Every model that the selection offers is a non-empty string.\<close>

lemma PAYMENT_MODELS_nonempty: "sel \<in> set PAYMENT_MODELS \<Longrightarrow> sel \<noteq> []"
  by (auto simp: PAYMENT_MODELS_def js_def)

lemma percentage_whole: "g \<noteq> 0 \<Longrightarrow> jsmul (jsdiv (Fin g) (Fin g)) (Fin 100) = Fin 100"
  by simp

text \<open>
  Claim C5, as amended. With a specific payment type selected, the summary
  is the summary of the unfiltered case computed over only the entries
  whose payment type is the selected one; its grand total is the sum of
  their amounts. There is no row when no entry matches; otherwise there is
  a single row, of the selected type, with the number of matching entries
  and with the grand total as its amount, and its percentage is that total
  divided by itself, times 100: this is 100 when the total is a non-zero
  finite number and NaN when the total is 0. With All selected no entry is
  left out.
\<close>

theorem filter_recomputes_over_subset:
  "filteredEntries (js ''All'') es = es
   \<and> (sel \<noteq> js ''All'' \<and> sel \<noteq> [] \<longrightarrow>
        paymentTotals sel (Some es) =
          paymentTotals (js ''All'') (Some (filter (\<lambda>e. paymentType e = Some sel) es))
        \<and> grandTotal (paymentTotals sel (Some es)) =
            amountsTotal (filter (\<lambda>e. paymentType e = Some sel) es)
        \<and> (filter (\<lambda>e. paymentType e = Some sel) es = [] \<longrightarrow>
              items (paymentTotals sel (Some es)) = [])
        \<and> (filter (\<lambda>e. paymentType e = Some sel) es \<noteq> [] \<longrightarrow>
              items (paymentTotals sel (Some es)) =
                [\<lparr>count = length (filter (\<lambda>e. paymentType e = Some sel) es),
                  amountSum = grandTotal (paymentTotals sel (Some es)),
                  ptype = sel,
                  percentage = jsmul (jsdiv (grandTotal (paymentTotals sel (Some es)))
                                 (grandTotal (paymentTotals sel (Some es)))) (Fin 100)\<rparr>]
              \<and> (\<forall>g. g \<noteq> 0 \<and> grandTotal (paymentTotals sel (Some es)) = Fin g \<longrightarrow>
                    map percentage (items (paymentTotals sel (Some es))) = [Fin 100])
              \<and> (grandTotal (paymentTotals sel (Some es)) = Fin 0 \<longrightarrow>
                    map percentage (items (paymentTotals sel (Some es))) = [NaN])))"
proof (intro conjI impI)
  show "filteredEntries (js ''All'') es = es" by (rule filtered_all)
next
  let ?m = "filter (\<lambda>e. paymentType e = Some sel) es"
  let ?r = "paymentTotals sel (Some es)"
  assume a: "sel \<noteq> js ''All'' \<and> sel \<noteq> []"
  have f: "filteredEntries sel es = ?m" using a by (simp add: filtered_specific)
  show "?r = paymentTotals (js ''All'') (Some ?m)"
    unfolding paymentTotals_unfold f filtered_all ..
  show g: "grandTotal ?r = amountsTotal ?m"
    unfolding paymentTotals_grand f ..
  show "items ?r = []" if "?m = []"
    unfolding paymentTotals_unfold f that by (simp add: aggregate_Nil sortItems_def)
  have ty: "\<forall>e \<in> set ?m. bucketType e = sel"
    using a by (simp add: bucketType_def)
  have it: "items ?r =
      [\<lparr>count = length ?m, amountSum = grandTotal ?r, ptype = sel,
        percentage = jsmul (jsdiv (grandTotal ?r) (grandTotal ?r)) (Fin 100)\<rparr>]" if "?m \<noteq> []"
    unfolding g unfolding paymentTotals_unfold f aggregate_single_type[OF that ty]
    by (simp add: sortItems_single mkItem_def)
  show "items ?r =
      [\<lparr>count = length ?m, amountSum = grandTotal ?r, ptype = sel,
        percentage = jsmul (jsdiv (grandTotal ?r) (grandTotal ?r)) (Fin 100)\<rparr>]" if "?m \<noteq> []"
    using that by (rule it)
  show "\<forall>g. g \<noteq> 0 \<and> grandTotal ?r = Fin g \<longrightarrow> map percentage (items ?r) = [Fin 100]"
    if "?m \<noteq> []"
  proof (intro allI impI)
    fix g assume "g \<noteq> 0 \<and> grandTotal ?r = Fin g"
    then have "jsmul (jsdiv (grandTotal ?r) (grandTotal ?r)) (Fin 100) = Fin 100"
      using percentage_whole[of g] by simp
    then show "map percentage (items ?r) = [Fin 100]"
      unfolding it[OF that] by simp
  qed
  show "map percentage (items ?r) = [NaN]" if "?m \<noteq> []" "grandTotal ?r = Fin 0"
  proof -
    have "jsmul (jsdiv (grandTotal ?r) (grandTotal ?r)) (Fin 100) = NaN"
      unfolding that(2) by simp
    then show ?thesis unfolding it[OF that(1)] by simp
  qed
qed

theorem filter_recomputes_over_subset_witness:
  "map percentage (items (paymentTotals (js ''BDO'')
      (Some [\<lparr>paymentType = Some (js ''BDO''), amount = JStr (js ''1,000.50'')\<rparr>,
             \<lparr>paymentType = Some (js ''SM''), amount = JNum (Fin 5)\<rparr>,
             \<lparr>paymentType = Some (js ''BDO''), amount = JStr (js ''2.50'')\<rparr>]))) = [Fin 100]
   \<and> grandTotal (paymentTotals (js ''BDO'')
      (Some [\<lparr>paymentType = Some (js ''BDO''), amount = JStr (js ''1,000.50'')\<rparr>,
             \<lparr>paymentType = Some (js ''SM''), amount = JNum (Fin 5)\<rparr>,
             \<lparr>paymentType = Some (js ''BDO''), amount = JStr (js ''2.50'')\<rparr>])) = Fin 1003"
proof -
  let ?es = "[\<lparr>paymentType = Some (js ''BDO''), amount = JStr (js ''1,000.50'')\<rparr>,
             \<lparr>paymentType = Some (js ''SM''), amount = JNum (Fin 5)\<rparr>,
             \<lparr>paymentType = Some (js ''BDO''), amount = JStr (js ''2.50'')\<rparr>]"
  note th = filter_recomputes_over_subset[of ?es "js ''BDO''", THEN conjunct2]
  have sel: "js ''BDO'' \<noteq> js ''All'' \<and> js ''BDO'' \<noteq> []" by (simp add: js_def)
  have m: "filter (\<lambda>e. paymentType e = Some (js ''BDO'')) ?es \<noteq> []" by simp
  have g: "grandTotal (paymentTotals (js ''BDO'') (Some ?es)) = Fin 1003"
    by (simp add: summary_eval string_eval parse_eval)
  have "\<forall>g. g \<noteq> 0 \<and> grandTotal (paymentTotals (js ''BDO'') (Some ?es)) = Fin g \<longrightarrow>
      map percentage (items (paymentTotals (js ''BDO'') (Some ?es))) = [Fin 100]"
    using th sel m by blast
  then have "map percentage (items (paymentTotals (js ''BDO'') (Some ?es))) = [Fin 100]"
    using g by simp
  then show ?thesis using g by simp
qed

text \<open>
  The claim as stated fails: when the only BDO entry has no amount, the
  BDO view has a grand total of 0 and its single row has the percentage
  NaN, not 100.
\<close>

theorem filter_single_row_counterexample:
  "map percentage (items (paymentTotals (js ''BDO'')
      (Some [\<lparr>paymentType = Some (js ''BDO''), amount = Nullish\<rparr>,
             \<lparr>paymentType = Some (js ''SM''), amount = JStr (js ''5.00'')\<rparr>]))) = [NaN]
   \<and> NaN \<noteq> Fin 100"
  by (simp add: summary_eval js_def)

lemma paymentTotals_row_exists:
  assumes "ofType t (filteredEntries sel es) \<noteq> []"
  shows "\<exists>it \<in> set (items (paymentTotals sel (Some es))). ptype it = t"
proof -
  let ?fes = "filteredEntries sel es"
  let ?it = "\<lparr>count = length (ofType t ?fes), amountSum = amountsTotal (ofType t ?fes),
              ptype = t,
              percentage = jsmul (jsdiv (amountsTotal (ofType t ?fes)) (amountsTotal ?fes)) (Fin 100)\<rparr>"
  have "?it \<in> set (items (paymentTotals sel (Some es)))"
    unfolding paymentTotals_item using assms by simp
  moreover have "ptype ?it = t" by simp
  ultimately show ?thesis by blast
qed

lemma paymentTotals_row_count:
  assumes "it \<in> set (items (paymentTotals sel (Some es)))"
  shows "count it = length (ofType (ptype it) (filteredEntries sel es))"
  using assms unfolding paymentTotals_item by (metis bucket.select_convs(1))

text \<open>
  Claim C10. With Unknown selected the filter keeps exactly the entries
  whose payment type is the string \<^verbatim>\<open>Unknown\<close>. An entry whose payment type
  is absent or empty is therefore not in that view, although its bucket
  type is Unknown and, with All selected, it is kept and counted in the
  row Unknown: the count of that row is the number of entries whose
  bucket type is Unknown, while every row of the view Unknown is the row
  Unknown and counts only the entries whose payment type is that string.
\<close>

theorem unknown_filter_strict_equality:
  "filteredEntries (js ''Unknown'') es = filter (\<lambda>e. paymentType e = Some (js ''Unknown'')) es
   \<and> (paymentType e = None \<or> paymentType e = Some [] \<longrightarrow>
        e \<notin> set (filteredEntries (js ''Unknown'') es) \<and> bucketType e = js ''Unknown'' \<and>
        (e \<in> set es \<longrightarrow>
           e \<in> set (filteredEntries (js ''All'') es) \<and>
           (\<exists>it \<in> set (items (paymentTotals (js ''All'') (Some es))).
              ptype it = js ''Unknown'')))
   \<and> (\<forall>it \<in> set (items (paymentTotals (js ''All'') (Some es))).
         ptype it = js ''Unknown'' \<longrightarrow>
         count it = length (filter (\<lambda>e. bucketType e = js ''Unknown'') es))
   \<and> (\<forall>it \<in> set (items (paymentTotals (js ''Unknown'') (Some es))).
         ptype it = js ''Unknown'' \<and>
         count it = length (filter (\<lambda>e. paymentType e = Some (js ''Unknown'')) es))"
proof (intro conjI impI ballI)
  let ?u = "js ''Unknown''"
  have ne: "?u \<noteq> js ''All''" "?u \<noteq> []" by (simp_all add: js_def)
  show f: "filteredEntries ?u es = filter (\<lambda>e. paymentType e = Some ?u) es"
    using ne(1) by (rule filtered_specific)
  have ty: "\<forall>x \<in> set (filteredEntries ?u es). bucketType x = ?u"
    unfolding f using ne(2) by (simp add: bucketType_def)
  {
    assume a: "paymentType e = None \<or> paymentType e = Some []"
    show "e \<notin> set (filteredEntries ?u es)" unfolding f using a ne(2) by auto
    show b: "bucketType e = ?u" using a by (auto simp: bucketType_def)
    assume m: "e \<in> set es"
    show "e \<in> set (filteredEntries (js ''All'') es)" unfolding filtered_all by (rule m)
    have "e \<in> set (ofType ?u (filteredEntries (js ''All'') es))"
      unfolding filtered_all ofType_def using m b by simp
    then have "ofType ?u (filteredEntries (js ''All'') es) \<noteq> []" by auto
    then show "\<exists>it \<in> set (items (paymentTotals (js ''All'') (Some es))). ptype it = ?u"
      by (rule paymentTotals_row_exists)
  }
  {
    fix it assume it: "it \<in> set (items (paymentTotals (js ''All'') (Some es)))"
      and p: "ptype it = ?u"
    show "count it = length (filter (\<lambda>e. bucketType e = ?u) es)"
      using paymentTotals_row_count[OF it] unfolding p filtered_all ofType_def .
  }
  {
    fix it assume it: "it \<in> set (items (paymentTotals ?u (Some es)))"
    have "ofType (ptype it) (filteredEntries ?u es) \<noteq> []"
      using it unfolding paymentTotals_item by simp
    then obtain x where "x \<in> set (filteredEntries ?u es)" "bucketType x = ptype it"
      unfolding ofType_def by (auto simp: filter_empty_conv)
    then show p: "ptype it = ?u" using ty by auto
    have "ofType ?u (filteredEntries ?u es) = filteredEntries ?u es"
      unfolding ofType_def using ty by simp
    then show "count it = length (filter (\<lambda>e. paymentType e = Some ?u) es)"
      using paymentTotals_row_count[OF it] unfolding p f by simp
  }
qed

theorem unknown_filter_strict_equality_witness:
  "map count (items (paymentTotals (js ''All'')
      (Some [\<lparr>paymentType = None, amount = JStr (js ''5.00'')\<rparr>,
             \<lparr>paymentType = Some (js ''Unknown''), amount = JStr (js ''1.00'')\<rparr>]))) = [2]
   \<and> map count (items (paymentTotals (js ''Unknown'')
      (Some [\<lparr>paymentType = None, amount = JStr (js ''5.00'')\<rparr>,
             \<lparr>paymentType = Some (js ''Unknown''), amount = JStr (js ''1.00'')\<rparr>]))) = [1]
   \<and> \<lparr>paymentType = None, amount = JStr (js ''5.00'')\<rparr> \<notin> set (filteredEntries (js ''Unknown'')
        [\<lparr>paymentType = None, amount = JStr (js ''5.00'')\<rparr>,
         \<lparr>paymentType = Some (js ''Unknown''), amount = JStr (js ''1.00'')\<rparr>])"
proof -
  let ?e = "\<lparr>paymentType = None, amount = JStr (js ''5.00'')\<rparr>"
  let ?es = "[?e, \<lparr>paymentType = Some (js ''Unknown''), amount = JStr (js ''1.00'')\<rparr>]"
  note th = unknown_filter_strict_equality[of ?es ?e]
  have h: "paymentType ?e = None \<or> paymentType ?e = Some []" by simp
  have a: "?e \<notin> set (filteredEntries (js ''Unknown'') ?es)"
    using th[THEN conjunct2, THEN conjunct1] h by blast
  have b: "map count (items (paymentTotals (js ''All'') (Some ?es))) = [2]"
    by (simp add: summary_eval string_eval parse_eval)
  have c: "map count (items (paymentTotals (js ''Unknown'') (Some ?es))) = [1]"
    by (simp add: summary_eval string_eval parse_eval)
  show ?thesis using a b c by simp
qed

section \<open>Properties of the currency formatting\<close>


lemma digit_not_dot: "isDigit c \<Longrightarrow> c \<noteq> dot"
  using dot_not_digit by auto

lemma digit_not_ws: "isDigit c \<Longrightarrow> \<not> isWhiteSpace c"
  by (auto simp: isDigit_def isWhiteSpace_def)










lemma parseFloat_leading_digit:
  assumes "isDigit c"
  shows "\<exists>q. parseFloat (c # t) = Fin q"
proof -
  have ws: "dropWhile isWhiteSpace (c # t) = c # t" using assms digit_not_ws by simp
  have c: "c \<noteq> 45" "c \<noteq> 43" "c \<noteq> 73" using assms by (auto simp: isDigit_def)
  have inf: "take 8 (c # t) \<noteq> js ''Infinity''" using c(3) by (simp add: js_def)
  have ip: "takeWhile isDigit (c # t) \<noteq> []" using assms by simp
  have "parseFloat (c # t) = parseUnsigned (c # t)"
    unfolding parseFloat_def ws using c by simp
  also have "\<exists>q. parseUnsigned (c # t) = Fin q"
    unfolding parseUnsigned_def Let_def using inf ip by (simp del: takeWhile.simps)
  finally show ?thesis .
qed

lemma decimalPlacesOf_amount:
  assumes "\<forall>c \<in> set ip. isDigit c" "\<forall>c \<in> set fp. isDigit c"
  shows "decimalPlacesOf (ip @ dot # fp) = length fp"
proof -
  have a: "\<forall>c \<in> set ip. c \<noteq> dot" "\<forall>c \<in> set fp. c \<noteq> dot"
    using assms digit_not_dot by auto
  have d: "dropWhile (\<lambda>c. c \<noteq> dot) (ip @ dot # fp) = dot # fp"
    using a(1) by (simp add: dropWhile_append2)
  have t: "takeWhile (\<lambda>c. c \<noteq> dot) fp = fp" using a(2) by (simp add: takeWhile_eq_all_conv)
  show ?thesis unfolding decimalPlacesOf_def d by (simp add: t)
qed


text \<open>
  Beyond the limit of the engine the formatter of the platform raises a
  RangeError and the formatter of the data table returns the zero string.
\<close>

lemma formatAmount_beyond_limit:
  assumes cl: "stripAmount (trim a) = ip @ dot # fp"
    and ip: "ip \<noteq> []" "\<forall>c \<in> set ip. isDigit c"
    and fp: "\<forall>c \<in> set fp. isDigit c"
    and gt: "fdMax < length fp"
  shows "formatAmount fdMax (Some a) = zeroAmount"
proof -
  have ne: "a \<noteq> []" using cl by (auto simp: stripAmount_def trim_def)
  obtain c t where ct: "ip = c # t" using ip(1) by (cases ip) auto
  then have "isDigit c" using ip(2) by simp
  then obtain q where q: "parseFloat (stripAmount (trim a)) = Fin q"
    unfolding cl ct using parseFloat_leading_digit[of c "t @ dot # fp"] by auto
  have dp: "decimalPlacesOf (stripAmount (trim a)) = length fp"
    unfolding cl using ip(2) fp by (rule decimalPlacesOf_amount)
  show ?thesis
    using ne q dp gt
    by (simp add: formatAmount_def formatAmountBody_def toLocaleString_def
        numberFormatCurrency_def Let_def)
qed





text \<open>
  The part of claim C9 that holds. Both formatters are total: an
  exception of the platform's formatter is caught and gives the zero
  string. The formatter of the data table returns the zero string for a
  missing value, for the empty string and for every string that does not
  parse to a number; the formatter of the summary returns it for an absent
  value, the empty string, 0 and NaN.
\<close>

lemma formatAmount_safe_default:
  "formatAmount fdMax None = zeroAmount"
  "formatAmount fdMax (Some []) = zeroAmount"
  "isNaN (parseFloat (stripAmount (trim s))) \<Longrightarrow> formatAmount fdMax (Some s) = zeroAmount"
  "formatAmountBody fdMax v = Inl e \<Longrightarrow> formatAmount fdMax v = zeroAmount"
  by (simp_all add: formatAmount_def formatAmountBody_def Let_def)

lemma summaryFormatAmount_safe_default:
  "falsy a \<Longrightarrow> summaryFormatAmount fdMax a = zeroAmount"
  "summaryFormatAmountBody fdMax a = Inl e \<Longrightarrow> summaryFormatAmount fdMax a = zeroAmount"
  by (simp_all add: summaryFormatAmount_def summaryFormatAmountBody_def)


end
